theory Spec2Isabelle
  imports Main "HOL-Library.Sublist"
begin

section \<open>Python string primitives\<close>

text \<open>
  Python strings are modelled as \<^typ>\<open>string\<close>, one \<^typ>\<open>char\<close> per character. The case
  mapping and the whitespace class are those of Python on ASCII text; characters outside
  ASCII are left alone by \<open>py_lower\<close> and are never whitespace.
\<close>

definition lower_char :: "char \<Rightarrow> char" where
  "lower_char c =
     (case map_of (zip ''ABCDEFGHIJKLMNOPQRSTUVWXYZ'' ''abcdefghijklmnopqrstuvwxyz'') c of
        Some d \<Rightarrow> d
      | None \<Rightarrow> c)"

text \<open>\<^verbatim>\<open>s.lower()\<close>\<close>

definition py_lower :: "string \<Rightarrow> string" where
  "py_lower s = map lower_char s"

text \<open>
  The characters \<^verbatim>\<open>str.isspace\<close> accepts below 128: tab, line feed, vertical tab, form
  feed, carriage return, the four separators 28 to 31, and the space.
\<close>

definition is_space :: "char \<Rightarrow> bool" where
  "is_space c =
     (let n = (of_char c :: nat) in (9 \<le> n \<and> n \<le> 13) \<or> (28 \<le> n \<and> n \<le> 32))"

text \<open>\<^verbatim>\<open>s.strip()\<close>\<close>

definition py_strip :: "string \<Rightarrow> string" where
  "py_strip s = rev (dropWhile is_space (rev (dropWhile is_space s)))"

text \<open>\<^verbatim>\<open>pat in s\<close> on strings: \<open>pat\<close> occurs in \<open>s\<close> as a contiguous substring.\<close>

fun py_in :: "string \<Rightarrow> string \<Rightarrow> bool" where
  "py_in pat [] = (pat = [])"
| "py_in pat (c # cs) = (prefix pat (c # cs) \<or> py_in pat cs)"

text \<open>\<^verbatim>\<open>s.startswith(p)\<close>\<close>

definition startswith :: "string \<Rightarrow> string \<Rightarrow> bool" where
  "startswith s p = prefix p s"

text \<open>
  \<^verbatim>\<open>s.replace(old, new)\<close> where \<open>old\<close> is a single character, the only form the program
  uses.
\<close>

definition replace :: "string \<Rightarrow> char \<Rightarrow> string \<Rightarrow> string" where
  "replace s old new = concat (map (\<lambda>c. if c = old then new else [c]) s)"

text \<open>\<^verbatim>\<open>str(n)\<close> for a non-negative integer.\<close>

function str_nat :: "nat \<Rightarrow> string" where
  "str_nat n =
     (if n < 10 then [''0123456789'' ! n]
      else str_nat (n div 10) @ [''0123456789'' ! (n mod 10)])"
  by pat_completeness auto
termination
  by (relation "measure id") auto

declare str_nat.simps [simp del]

section \<open>Job records\<close>

text \<open>
  Every job dictionary the program builds has the seven keys \<open>title\<close>, \<open>company\<close>,
  \<open>location\<close>, \<open>experience\<close>, \<open>salary\<close>, \<open>apply_url\<close> and \<open>source\<close>; the key
  \<open>description\<close> is present in some (\<open>Some\<close>) and missing in the dictionaries that
  \<open>parse_linkedin_job\<close> returns (\<open>None\<close>).
\<close>

record job =
  title :: string
  company :: string
  location :: string
  experience :: string
  salary :: string
  description :: "string option"
  apply_url :: string
  source :: string

section \<open>Removing duplicates\<close>

text \<open>The key of \<open>remove_duplicates\<close>: \<^verbatim>\<open>(job['title'].lower().strip(), job['company'].lower().strip())\<close>.\<close>

definition dedup_key :: "job \<Rightarrow> string \<times> string" where
  "dedup_key j = (py_strip (py_lower (title j)), py_strip (py_lower (company j)))"

text \<open>The loop of \<open>remove_duplicates\<close>, with its two variables \<open>seen\<close> and \<open>unique_jobs\<close>.\<close>

fun remove_duplicates_loop ::
  "(string \<times> string) set \<Rightarrow> job list \<Rightarrow> job list \<Rightarrow> job list" where
  "remove_duplicates_loop seen unique_jobs [] = unique_jobs"
| "remove_duplicates_loop seen unique_jobs (j # jobs) =
     (let key = dedup_key j in
      if key \<notin> seen then remove_duplicates_loop (insert key seen) (unique_jobs @ [j]) jobs
      else remove_duplicates_loop seen unique_jobs jobs)"

definition remove_duplicates :: "job list \<Rightarrow> job list" where
  "remove_duplicates jobs = remove_duplicates_loop {} [] jobs"


section \<open>The parsed document, as the program observes it\<close>

text \<open>
  The program reads a BeautifulSoup element through its text and its \<open>href\<close> attribute
  only. \<open>strings\<close> are the element's text nodes in document order; \<open>href\<close> is
  \<^verbatim>\<open>elem.get('href')\<close>, \<open>None\<close> when the attribute is missing.
\<close>

record element =
  strings :: "string list"
  href :: "string option"

text \<open>
  \<^verbatim>\<open>elem.get_text(strip=True)\<close>: every text node is stripped, the empty ones are dropped
  and the rest are joined with no separator.
\<close>

definition get_text_strip :: "element \<Rightarrow> string" where
  "get_text_strip e = concat (filter (\<lambda>s. s \<noteq> []) (map py_strip (strings e)))"

text \<open>
  A job card is read through \<^verbatim>\<open>card.select_one(selector)\<close>,
  \<^verbatim>\<open>card.find_all('a', href=True)\<close> and \<^verbatim>\<open>card.find('a')\<close>. These library calls are
  taken to return normally on a parsed card, so the \<^verbatim>\<open>except\<close> branches of the card
  parsers are never entered.
\<close>

record card =
  select_one :: "string \<Rightarrow> element option"
  find_all_a_href :: "element list"
  find_a :: "element option"

text \<open>
  The loop \<^verbatim>\<open>for selector in selectors: elem = card.select_one(selector); if elem: ...; break\<close>
  acts on the first selector that finds an element (a \<open>Tag\<close> is always truthy).
\<close>

fun select_first :: "card \<Rightarrow> string list \<Rightarrow> element option" where
  "select_first c [] = None"
| "select_first c (selector # selectors) =
     (case select_one c selector of
        Some elem \<Rightarrow> Some elem
      | None \<Rightarrow> select_first c selectors)"

text \<open>The queries the search functions make on a whole page.\<close>

datatype query =
    DivJobSearchCard
  | LiResultCard
  | DivDataEntityUrn
  | ClassContainsJob
  | ClassLongerThan5

record page =
  select :: "string \<Rightarrow> card list"
  find_all :: "query \<Rightarrow> card list"

text \<open>
  What the network part of a search function's \<^verbatim>\<open>try\<close> block did: it raised
  (\<open>Raised\<close>), or it returned a response with a status code and a body.
\<close>

datatype fetch = Raised | Response nat page

section \<open>Job URLs\<close>

definition job_patterns :: "string list" where
  "job_patterns =
     [''/job/'', ''/jobs/'', ''/career/'', ''/careers/'',
      ''/vacancy/'', ''/opening/'', ''/position/'',
      ''job-detail'', ''job_detail'', ''jobdetail'']"

definition is_valid_job_url :: "string \<Rightarrow> bool" where
  "is_valid_job_url url =
     (if url = [] then False
      else list_ex (\<lambda>pattern. py_in pattern (py_lower url)) job_patterns)"

text \<open>The two slugs \<open>get_fallback_job_url\<close> computes first are not used by it.\<close>

definition get_fallback_job_url :: "string \<Rightarrow> string \<Rightarrow> string \<Rightarrow> string" where
  "get_fallback_job_url job_title company' source' =
     (if source' = ''Apna.co'' then
        ''https://apna.co/jobs?search='' @ replace job_title (CHR '' '') ''%20''
          @ ''&company='' @ replace company' (CHR '' '') ''%20''
      else if source' = ''TimesJobs'' then
        ''https://www.timesjobs.com/candidate/job-search.html?searchType=personalizedSearch&from=submit&txtKeywords=''
          @ replace job_title (CHR '' '') ''%20'' @ ''&txtLocation=India''
      else
        ''https://www.google.com/search?q='' @ replace job_title (CHR '' '') ''+''
          @ ''+jobs+at+'' @ replace company' (CHR '' '') ''+'')"

section \<open>Apna.co cards\<close>

definition apna_title_selectors :: "string list" where
  \<open>apna_title_selectors =
     [''h2 a'', ''h3 a'', ''.job-title a'', ''.title a'',
      ''a[href*="job"]'', ''.job-name'', ''.position'']\<close>

definition apna_title_text_selectors :: "string list" where
  "apna_title_text_selectors = [''h2'', ''h3'', ''.job-title'', ''.title'', ''.job-name'']"

definition apna_salary_selectors :: "string list" where
  "apna_salary_selectors = [''.salary'', ''.pay'', ''.wage'', ''.compensation'']"

definition apna_desc_selectors :: "string list" where
  "apna_desc_selectors = [''.description'', ''.job-desc'', ''.summary'', ''.details'']"

text \<open>The dictionary \<open>parse_apna_job_card\<close> starts from.\<close>

definition apna_init :: job where
  "apna_init =
     \<lparr>title = [], company = [], location = [], experience = [],
      salary = ''Not disclosed'', description = Some [], apply_url = ''#'',
      source = ''Apna.co''\<rparr>"

text \<open>Extract job title and link.\<close>

definition apna_title_link :: "card \<Rightarrow> job \<Rightarrow> job" where
  "apna_title_link c job_data =
     (case select_first c apna_title_selectors of
        None \<Rightarrow> job_data
      | Some title_elem \<Rightarrow>
          (let job_data = job_data\<lparr>title := get_text_strip title_elem\<rparr> in
           case href title_elem of
             None \<Rightarrow> job_data
           | Some h \<Rightarrow>
               if h \<noteq> [] \<and> is_valid_job_url h then
                 (if startswith h ''/'' then job_data\<lparr>apply_url := ''https://apna.co'' @ h\<rparr>
                  else job_data\<lparr>apply_url := h\<rparr>)
               else job_data))"

text \<open>If no link found, try text-only title.\<close>

definition apna_title_text :: "card \<Rightarrow> job \<Rightarrow> job" where
  "apna_title_text c job_data =
     (if title job_data = [] then
        (case select_first c apna_title_text_selectors of
           None \<Rightarrow> job_data
         | Some title_elem \<Rightarrow> job_data\<lparr>title := get_text_strip title_elem\<rparr>)
      else job_data)"

text \<open>
  If still no apply URL, look for any job-related links in the card: the first link of
  \<open>all_links\<close> whose \<open>href\<close> is non-empty and passes \<open>is_valid_job_url\<close>.
\<close>

fun apna_any_link :: "element list \<Rightarrow> job \<Rightarrow> job" where
  "apna_any_link [] job_data = job_data"
| "apna_any_link (link # all_links) job_data =
     (case href link of
        None \<Rightarrow> apna_any_link all_links job_data
      | Some h \<Rightarrow>
          if h \<noteq> [] \<and> is_valid_job_url h then
            (if startswith h ''/'' then job_data\<lparr>apply_url := ''https://apna.co'' @ h\<rparr>
             else job_data\<lparr>apply_url := h\<rparr>)
          else apna_any_link all_links job_data)"

definition apna_links :: "card \<Rightarrow> job \<Rightarrow> job" where
  "apna_links c job_data =
     (if apply_url job_data = ''#'' then apna_any_link (find_all_a_href c) job_data
      else job_data)"

text \<open>Extract company name, location, salary and description.\<close>

definition extract_company :: "string list \<Rightarrow> card \<Rightarrow> job \<Rightarrow> job" where
  "extract_company company_selectors c job_data =
     (case select_first c company_selectors of
        None \<Rightarrow> job_data
      | Some company_elem \<Rightarrow> job_data\<lparr>company := get_text_strip company_elem\<rparr>)"

definition extract_location :: "string list \<Rightarrow> card \<Rightarrow> job \<Rightarrow> job" where
  "extract_location location_selectors c job_data =
     (case select_first c location_selectors of
        None \<Rightarrow> job_data
      | Some location_elem \<Rightarrow> job_data\<lparr>location := get_text_strip location_elem\<rparr>)"

definition extract_experience :: "string list \<Rightarrow> card \<Rightarrow> job \<Rightarrow> job" where
  "extract_experience exp_selectors c job_data =
     (case select_first c exp_selectors of
        None \<Rightarrow> job_data
      | Some exp_elem \<Rightarrow> job_data\<lparr>experience := get_text_strip exp_elem\<rparr>)"

definition extract_salary :: "string list \<Rightarrow> card \<Rightarrow> job \<Rightarrow> job" where
  "extract_salary salary_selectors c job_data =
     (case select_first c salary_selectors of
        None \<Rightarrow> job_data
      | Some salary_elem \<Rightarrow> job_data\<lparr>salary := get_text_strip salary_elem\<rparr>)"

text \<open>\<^verbatim>\<open>job_data['description'] = desc_elem.get_text(strip=True)[:200] + "..."\<close>\<close>

definition extract_description :: "string list \<Rightarrow> card \<Rightarrow> job \<Rightarrow> job" where
  "extract_description desc_selectors c job_data =
     (case select_first c desc_selectors of
        None \<Rightarrow> job_data
      | Some desc_elem \<Rightarrow>
          job_data\<lparr>description := Some (take 200 (get_text_strip desc_elem) @ ''...'')\<rparr>)"

text \<open>
  The value both link branches of \<open>parse_apna_job_card\<close> store for an accepted
  \<open>href\<close>: made absolute when it begins with a slash, kept as it is otherwise.
\<close>

definition apna_resolved :: "string \<Rightarrow> string" where
  "apna_resolved h = (if startswith h ''/'' then ''https://apna.co'' @ h else h)"

text \<open>The dictionary \<open>parse_apna_job_card\<close> holds before its final test.\<close>

definition apna_extract :: "card \<Rightarrow> job" where
  "apna_extract c =
     (let job_data = apna_init;
          job_data = apna_title_link c job_data;
          job_data = apna_title_text c job_data;
          job_data = apna_links c job_data;
          job_data = extract_company
            [''.company-name'', ''.company'', ''.employer'', ''.org-name'', ''.business-name'']
            c job_data;
          job_data = extract_location
            [''.location'', ''.job-location'', ''.place'', ''.city''] c job_data;
          job_data = extract_salary apna_salary_selectors c job_data;
          job_data = extract_description apna_desc_selectors c job_data
      in job_data)"

text \<open>Only return if we have essential data; set defaults; ensure a working apply URL.\<close>

definition apna_finish :: "job \<Rightarrow> job option" where
  "apna_finish job_data =
     (if title job_data \<noteq> [] then
        (let job_data =
               (if company job_data = [] then job_data\<lparr>company := ''Various Companies''\<rparr>
                else job_data);
             job_data =
               (if location job_data = [] then job_data\<lparr>location := ''India''\<rparr>
                else job_data);
             job_data =
               (if experience job_data = [] then job_data\<lparr>experience := ''As per requirement''\<rparr>
                else job_data);
             job_data =
               (if apply_url job_data = ''#'' \<or> \<not> is_valid_job_url (apply_url job_data) then
                  job_data\<lparr>apply_url :=
                    get_fallback_job_url (title job_data) (company job_data) ''Apna.co''\<rparr>
                else job_data)
         in Some job_data)
      else None)"

definition parse_apna_job_card :: "card \<Rightarrow> job option" where
  "parse_apna_job_card c = apna_finish (apna_extract c)"

section \<open>TimesJobs cards\<close>

definition timesjobs_init :: job where
  "timesjobs_init =
     \<lparr>title = [], company = [], location = [], experience = [],
      salary = ''Not disclosed'', description = Some [], apply_url = ''#'',
      source = ''TimesJobs''\<rparr>"

definition timesjobs_title_selectors :: "string list" where
  "timesjobs_title_selectors =
     [''h2 a[title]'', ''.jobTitle a'', ''h3.jobTitle a'', ''a.job-title'', ''.position a'',
      ''h2 a'']"

definition timesjobs_salary_selectors :: "string list" where
  "timesjobs_salary_selectors = [''.salary .sal'', ''.package'', ''.ctc'']"

definition timesjobs_desc_selectors :: "string list" where
  "timesjobs_desc_selectors = [''.job-description'', ''.list-job-dtl'', ''.more-info'']"

text \<open>Extract job title and link; TimesJobs URLs are usually relative.\<close>

definition timesjobs_title_link :: "card \<Rightarrow> job \<Rightarrow> job" where
  "timesjobs_title_link c job_data =
     (case select_first c timesjobs_title_selectors of
        None \<Rightarrow> job_data
      | Some title_elem \<Rightarrow>
          (let job_data = job_data\<lparr>title := get_text_strip title_elem\<rparr> in
           case href title_elem of
             None \<Rightarrow> job_data
           | Some h \<Rightarrow>
               if h \<noteq> [] then
                 (if startswith h ''/'' then
                    job_data\<lparr>apply_url := ''https://www.timesjobs.com'' @ h\<rparr>
                  else if startswith h ''http'' then job_data\<lparr>apply_url := h\<rparr>
                  else job_data\<lparr>apply_url := ''https://www.timesjobs.com/'' @ h\<rparr>)
               else job_data))"

definition timesjobs_extract :: "card \<Rightarrow> job" where
  "timesjobs_extract c =
     (let job_data = timesjobs_init;
          job_data = timesjobs_title_link c job_data;
          job_data = extract_company
            [''.comp-name a'', ''.company-name'', ''.companyName'', ''h3.joblist-comp-name'',
             ''.job-advertiser'']
            c job_data;
          job_data = extract_location
            [''.location .locationsContainer'', ''.job-location'', ''.locationsContainer'', ''.loc'']
            c job_data;
          job_data = extract_experience
            [''.experience .expwdth'', ''.exp'', ''.job-experience''] c job_data;
          job_data = extract_salary timesjobs_salary_selectors c job_data;
          job_data = extract_description timesjobs_desc_selectors c job_data
      in job_data)"

definition timesjobs_finish :: "job \<Rightarrow> job option" where
  "timesjobs_finish job_data =
     (if title job_data \<noteq> [] \<and> company job_data \<noteq> [] then
        (let job_data =
               (if location job_data = [] then job_data\<lparr>location := ''India''\<rparr>
                else job_data);
             job_data =
               (if experience job_data = [] then job_data\<lparr>experience := ''As per requirement''\<rparr>
                else job_data);
             job_data =
               (if apply_url job_data = ''#'' then
                  job_data\<lparr>apply_url :=
                    get_fallback_job_url (title job_data) (company job_data) ''TimesJobs''\<rparr>
                else job_data)
         in Some job_data)
      else None)"

definition parse_timesjobs_job_card :: "card \<Rightarrow> job option" where
  "parse_timesjobs_job_card c = timesjobs_finish (timesjobs_extract c)"

section \<open>Indeed cards\<close>

definition indeed_init :: job where
  "indeed_init =
     \<lparr>title = [], company = [], location = [], experience = [],
      salary = ''Not disclosed'', description = Some [], apply_url = ''#'',
      source = ''Indeed''\<rparr>"

definition indeed_title_selectors :: "string list" where
  \<open>indeed_title_selectors =
     [''h2 a[data-jk]'', ''.jobTitle a'', ''h2.jobTitle a'',
      ''[data-testid="job-title"] a'', ''a[data-jk]'']\<close>

definition indeed_salary_selectors :: "string list" where
  \<open>indeed_salary_selectors =
     [''.salary-snippet'', ''.salaryText'', ''[data-testid="job-salary"]'', ''.salary'']\<close>

definition indeed_desc_selectors :: "string list" where
  \<open>indeed_desc_selectors = [''.job-snippet'', ''.summary'', ''[data-testid="job-snippet"]'']\<close>

definition indeed_title_link :: "card \<Rightarrow> job \<Rightarrow> job" where
  "indeed_title_link c job_data =
     (case select_first c indeed_title_selectors of
        None \<Rightarrow> job_data
      | Some title_elem \<Rightarrow>
          (let job_data = job_data\<lparr>title := get_text_strip title_elem\<rparr> in
           case href title_elem of
             None \<Rightarrow> job_data
           | Some h \<Rightarrow>
               if h \<noteq> [] then
                 (if startswith h ''/'' then
                    job_data\<lparr>apply_url := ''https://www.indeed.com'' @ h\<rparr>
                  else job_data\<lparr>apply_url := h\<rparr>)
               else job_data))"

definition indeed_extract :: "card \<Rightarrow> job" where
  \<open>indeed_extract c =
     (let job_data = indeed_init;
          job_data = indeed_title_link c job_data;
          job_data = extract_company
            [''.companyName'', ''[data-testid="company-name"]'', ''.company'',
             ''span.companyName a'', ''span.companyName'']
            c job_data;
          job_data = extract_location
            [''.companyLocation'', ''[data-testid="job-location"]'', ''.location'',
             ''div.companyLocation'']
            c job_data;
          job_data = extract_salary indeed_salary_selectors c job_data;
          job_data = extract_description indeed_desc_selectors c job_data
      in job_data)\<close>

definition indeed_finish :: "job \<Rightarrow> job option" where
  "indeed_finish job_data =
     (if title job_data \<noteq> [] \<and> company job_data \<noteq> [] then
        (let job_data =
               (if location job_data = [] then job_data\<lparr>location := ''Remote''\<rparr>
                else job_data);
             job_data =
               (if experience job_data = [] then job_data\<lparr>experience := ''Not specified''\<rparr>
                else job_data)
         in Some job_data)
      else None)"

definition parse_indeed_job_card :: "card \<Rightarrow> job option" where
  "parse_indeed_job_card c = indeed_finish (indeed_extract c)"

section \<open>LinkedIn cards\<close>

text \<open>The helper \<open>get_text(element, selectors)\<close>.\<close>

definition get_text :: "card \<Rightarrow> string list \<Rightarrow> string" where
  "get_text c selectors =
     (case select_first c selectors of
        Some found \<Rightarrow> get_text_strip found
      | None \<Rightarrow> [])"

text \<open>\<^verbatim>\<open>x or default\<close> on strings.\<close>

definition or_default :: "string \<Rightarrow> string \<Rightarrow> string" where
  "or_default x d = (if x \<noteq> [] then x else d)"

definition linkedin_title_selectors :: "string list" where
  "linkedin_title_selectors = [''h3'', ''.result-card__title'', ''.job-title'']"

definition linkedin_company_selectors :: "string list" where
  "linkedin_company_selectors = [''h4'', ''.result-card__subtitle'', ''.company-name'']"

definition linkedin_location_selectors :: "string list" where
  "linkedin_location_selectors = [''.job-search-card__location'', ''.result-card__location'']"

text \<open>The job link of a LinkedIn card, made absolute when it begins with a slash.\<close>

definition linkedin_job_link :: "card \<Rightarrow> string" where
  "linkedin_job_link c =
     (let job_link =
            (case find_a c of
               None \<Rightarrow> ''#''
             | Some link_elem \<Rightarrow>
                 (case href link_elem of
                    None \<Rightarrow> ''#''
                  | Some h \<Rightarrow> if h \<noteq> [] then h else ''#''))
      in if startswith job_link ''/'' then ''https://www.linkedin.com'' @ job_link
         else job_link)"

definition parse_linkedin_job :: "card \<Rightarrow> job option" where
  "parse_linkedin_job c =
     (let title' = get_text c linkedin_title_selectors;
          company' = get_text c linkedin_company_selectors;
          location' = get_text c linkedin_location_selectors;
          job_link = linkedin_job_link c
      in Some \<lparr>title = or_default title' ''Software Developer'',
               company = or_default company' ''Tech Company'',
               location = or_default location' ''Remote'',
               experience = ''Not specified'',
               salary = ''Not disclosed'',
               description = None,
               apply_url = job_link,
               source = ''LinkedIn''\<rparr>)"

section \<open>Sample jobs\<close>

text \<open>The rupee sign of the sample salaries, as its three UTF-8 bytes.\<close>

definition rupee :: string where
  "rupee = [CHR 0xE2, CHR 0x82, CHR 0xB9]"

definition get_sample_apna_jobs :: "string \<Rightarrow> string \<Rightarrow> job list" where
  "get_sample_apna_jobs job_title loc =
     (let companies = [''Zomato'', ''Swiggy'', ''Urban Company'', ''Dunzo'', ''BigBasket'',
                       ''Grofers'', ''Ola'', ''Uber''];
          locations = [''Delhi'', ''Mumbai'', ''Bangalore'', ''Hyderabad'', ''Chennai'', ''Pune'',
                       ''Kolkata'', ''Ahmedabad'']
      in map (\<lambda>i.
           let company' = companies ! (i mod length companies);
               title' = (if i = 0 then job_title
                         else if i = 1 then ''Senior '' @ job_title
                         else job_title @ '' - '' @ company')
           in \<lparr>title = title',
               company = company',
               location = locations ! (i mod length locations),
               experience = (if i > 0 then str_nat (1 + i) @ ''-'' @ str_nat (3 + i) @ '' years''
                             else ''Fresher''),
               salary = rupee @ str_nat (15 + i * 5) @ ''k - '' @ rupee @ str_nat (25 + i * 8)
                          @ ''k per month'',
               description = Some (''Exciting '' @ job_title @ '' opportunity at '' @ company'
                          @ '' with growth potential and competitive benefits.''),
               apply_url = get_fallback_job_url title' company' ''Apna.co'',
               source = ''Apna.co''\<rparr>)
         [0..<6])"

definition get_sample_timesjobs :: "string \<Rightarrow> string \<Rightarrow> job list" where
  "get_sample_timesjobs job_title loc =
     (let companies = [''Accenture'', ''Capgemini'', ''IBM'', ''Deloitte'', ''EY'', ''KPMG''];
          locations = [''Gurgaon'', ''Noida'', ''Bangalore'', ''Hyderabad'', ''Chennai'', ''Mumbai'']
      in map (\<lambda>i.
           let company' = companies ! (i mod length companies);
               title' = (if i = 0 then job_title else ''Senior '' @ job_title)
           in \<lparr>title = title',
               company = company',
               location = locations ! (i mod length locations),
               experience = str_nat (2 + i) @ ''-'' @ str_nat (5 + i) @ '' years'',
               salary = rupee @ str_nat (4 + i * 3) @ ''-'' @ str_nat (8 + i * 4) @ '' Lakh PA'',
               description = Some (''Great '' @ job_title @ '' opportunity at '' @ company' @ ''.''),
               apply_url = get_fallback_job_url title' company' ''TimesJobs'',
               source = ''TimesJobs''\<rparr>)
         [0..<4])"

definition get_sample_linkedin_jobs :: "string \<Rightarrow> job list" where
  "get_sample_linkedin_jobs job_title =
     (let companies = [''Microsoft'', ''Google'', ''Amazon'', ''Meta'', ''Apple''];
          locations = [''Remote'', ''San Francisco'', ''Seattle'', ''New York'', ''Austin'']
      in map (\<lambda>i.
           \<lparr>title = ''Senior '' @ job_title,
            company = companies ! (i mod length companies),
            location = locations ! (i mod length locations),
            experience = str_nat (3 + i) @ ''+ years'',
            salary = ''$'' @ str_nat (80 + i * 20) @ ''k - $'' @ str_nat (120 + i * 20) @ ''k'',
            description = Some (''Exciting opportunity for '' @ job_title @ '' at ''
                       @ companies ! (i mod length companies) @ '' with competitive benefits.''),
            apply_url = ''https://www.linkedin.com/jobs/view/'' @ str_nat (1000000 + i),
            source = ''LinkedIn''\<rparr>)
         [0..<5])"

section \<open>The search functions\<close>

text \<open>
  \<open>find_..._job_cards\<close>: the cards of the first selector that finds any, else those of
  a broader \<open>find_all\<close>.
\<close>

fun first_selected :: "page \<Rightarrow> string list \<Rightarrow> card list" where
  "first_selected soup [] = []"
| "first_selected soup (selector # selectors_to_try) =
     (let cards = select soup selector in
      if cards \<noteq> [] then cards else first_selected soup selectors_to_try)"

definition find_apna_job_cards :: "page \<Rightarrow> card list" where
  "find_apna_job_cards soup =
     (let job_cards = first_selected soup
            [''.job-card'', ''.job-item'', ''[data-job-id]'', ''.listing-item'', ''.job-listing'',
             ''.card'', ''article'', ''.job-post'']
      in if job_cards = [] then find_all soup ClassLongerThan5 else job_cards)"

definition find_timesjobs_job_cards :: "page \<Rightarrow> card list" where
  "find_timesjobs_job_cards soup =
     (let job_cards = first_selected soup
            [''.srp-container .joblist'', ''.job-bx.wht-shd-bx'', ''.joblist-comp.clearfix'',
             ''li.clearfix.job-bx'', ''.job-bx'', ''.clearfix.job-bx.wht-shd-bx'',
             ''article.jobTuple'']
      in if job_cards = [] then find_all soup ClassContainsJob else job_cards)"

text \<open>
  The loop \<^verbatim>\<open>for card in job_cards[:n]: job = parse(card); if job: jobs.append(job)\<close>.
\<close>

definition parse_cards :: "(card \<Rightarrow> job option) \<Rightarrow> nat \<Rightarrow> card list \<Rightarrow> job list" where
  "parse_cards parse n job_cards = List.map_filter parse (take n job_cards)"

definition search_apna :: "fetch \<Rightarrow> string \<Rightarrow> string \<Rightarrow> job list" where
  "search_apna response job_title loc =
     (case response of
        Raised \<Rightarrow> get_sample_apna_jobs job_title loc
      | Response status_code soup \<Rightarrow>
          (let jobs = (if status_code = 200 then
                         parse_cards parse_apna_job_card 8 (find_apna_job_cards soup)
                       else [])
           in if jobs = [] then get_sample_apna_jobs job_title loc else jobs))"

definition search_timesjobs :: "fetch \<Rightarrow> string \<Rightarrow> string \<Rightarrow> job list" where
  "search_timesjobs response job_title loc =
     (case response of
        Raised \<Rightarrow> get_sample_timesjobs job_title loc
      | Response status_code soup \<Rightarrow>
          (let jobs = (if status_code = 200 then
                         parse_cards parse_timesjobs_job_card 8 (find_timesjobs_job_cards soup)
                       else [])
           in if jobs = [] then get_sample_timesjobs job_title loc else jobs))"

text \<open>
  \<open>search_linkedin\<close> takes its sample jobs in the \<^verbatim>\<open>except\<close> branch only. The three
  \<open>find_all\<close> calls are joined by \<^verbatim>\<open>or\<close>: the first non-empty result.
\<close>

definition search_linkedin :: "fetch \<Rightarrow> string \<Rightarrow> string \<Rightarrow> job list" where
  "search_linkedin response job_title loc =
     (case response of
        Raised \<Rightarrow> get_sample_linkedin_jobs job_title
      | Response status_code soup \<Rightarrow>
          (if status_code = 200 then
             (let job_cards =
                    (if find_all soup DivJobSearchCard \<noteq> [] then find_all soup DivJobSearchCard
                     else if find_all soup LiResultCard \<noteq> [] then find_all soup LiResultCard
                     else find_all soup DivDataEntityUrn)
              in parse_cards parse_linkedin_job 10 job_cards)
           else []))"

section \<open>The search pipeline\<close>

text \<open>
  \<open>search_jobs\<close> up to its call of \<open>remove_duplicates\<close>: the list \<open>all_jobs\<close>. The two
  responses are what the network gave to \<open>search_timesjobs\<close> and to \<open>search_linkedin\<close>.
\<close>

definition collect_jobs :: "fetch \<Rightarrow> fetch \<Rightarrow> string \<Rightarrow> string \<Rightarrow> job list" where
  "collect_jobs timesjobs_response linkedin_response job_title loc =
     (let all_jobs = [];
          timesjobs = search_timesjobs timesjobs_response job_title loc;
          all_jobs = all_jobs @ timesjobs;
          linkedin_jobs = search_linkedin linkedin_response job_title loc;
          all_jobs = all_jobs @ linkedin_jobs;
          timesjobs_count =
            length (filter (\<lambda>job. py_in ''timesjobs'' (py_lower (source job))) all_jobs)
      in if timesjobs_count = 0 then all_jobs @ take 4 (get_sample_timesjobs job_title loc)
         else all_jobs)"

text \<open>One round \<open>i\<close> of the mixing loop.\<close>

definition mix_step :: "'a list \<Rightarrow> 'a list \<Rightarrow> nat \<Rightarrow> 'a list \<Rightarrow> 'a list" where
  "mix_step timesjobs_jobs linkedin_jobs i mixed_jobs =
     (let mixed_jobs =
            (if i < length timesjobs_jobs then mixed_jobs @ [timesjobs_jobs ! i]
             else mixed_jobs);
          mixed_jobs =
            (if i < length linkedin_jobs then mixed_jobs @ [linkedin_jobs ! i]
             else mixed_jobs)
      in mixed_jobs)"

text \<open>The loop \<^verbatim>\<open>for i in range(max_len)\<close>, started with \<open>mixed_jobs = []\<close>.\<close>

definition mix_jobs :: "'a list \<Rightarrow> 'a list \<Rightarrow> 'a list" where
  "mix_jobs timesjobs_jobs linkedin_jobs =
     (let max_len = max (length linkedin_jobs) (length timesjobs_jobs)
      in fold (mix_step timesjobs_jobs linkedin_jobs) [0..<max_len] [])"

text \<open>\<open>search_jobs\<close> after \<open>remove_duplicates\<close>: the two source lists and their mix.\<close>

definition interleave :: "job list \<Rightarrow> job list" where
  "interleave unique_jobs =
     (let linkedin_jobs =
            filter (\<lambda>job. py_in ''linkedin'' (py_lower (source job))) unique_jobs;
          timesjobs_jobs =
            filter (\<lambda>job. py_in ''timesjobs'' (py_lower (source job))) unique_jobs
      in mix_jobs timesjobs_jobs linkedin_jobs)"

definition search_jobs :: "fetch \<Rightarrow> fetch \<Rightarrow> string \<Rightarrow> string \<Rightarrow> job list" where
  "search_jobs timesjobs_response linkedin_response job_title loc =
     interleave (remove_duplicates (collect_jobs timesjobs_response linkedin_response job_title loc))"

text \<open>
  The round-robin merge in the specification's words: for each round \<open>i\<close> below the
  length of the longest source, the \<open>i\<close>-th record of every source that has one, the
  sources taken in the order of the list.
\<close>

definition round_robin :: "'a list list \<Rightarrow> 'a list" where
  "round_robin sources =
     concat (map (\<lambda>i. concat (map (\<lambda>s. if i < length s then [s ! i] else []) sources))
       [0..<fold max (map length sources) 0])"

section \<open>The CSV export\<close>

text \<open>
  The keys of a job dictionary and \<^verbatim>\<open>rowdict.get(key)\<close>.
\<close>

definition keys :: "job \<Rightarrow> string list" where
  "keys rowdict =
     [''title'', ''company'', ''location'', ''experience'', ''salary'']
       @ (case description rowdict of None \<Rightarrow> [] | Some d \<Rightarrow> [''description''])
       @ [''apply_url'', ''source'']"

definition dict_get :: "job \<Rightarrow> string \<Rightarrow> string option" where
  "dict_get rowdict key =
     (if key = ''title'' then Some (title rowdict)
      else if key = ''company'' then Some (company rowdict)
      else if key = ''location'' then Some (location rowdict)
      else if key = ''experience'' then Some (experience rowdict)
      else if key = ''salary'' then Some (salary rowdict)
      else if key = ''description'' then description rowdict
      else if key = ''apply_url'' then Some (apply_url rowdict)
      else if key = ''source'' then Some (source rowdict)
      else None)"

definition fieldnames :: "string list" where
  "fieldnames =
     [''title'', ''company'', ''location'', ''experience'', ''salary'', ''apply_url'', ''source'']"

datatype csv_error = ValueError

text \<open>
  \<^verbatim>\<open>csv.DictWriter(csvfile, fieldnames=fieldnames)\<close> is built with the default
  \<^verbatim>\<open>extrasaction='raise'\<close> and \<^verbatim>\<open>restval=''\<close>: \<open>writerow\<close> raises \<open>ValueError\<close> when
  the dictionary has a key that is not a field name, and otherwise writes the values of
  the field names in their order. A row is modelled as the list of its cells.
\<close>

definition writerow :: "job \<Rightarrow> csv_error + string list" where
  "writerow rowdict =
     (if list_ex (\<lambda>k. k \<notin> set fieldnames) (keys rowdict) then Inl ValueError
      else Inr (map (\<lambda>key. case dict_get rowdict key of Some v \<Rightarrow> v | None \<Rightarrow> [])
                  fieldnames))"

text \<open>
  The loop \<^verbatim>\<open>for job in jobs: writer.writerow(job)\<close> on the rows written so far; an
  exception leaves the loop with the file as it is.
\<close>

fun write_rows :: "string list list \<Rightarrow> job list \<Rightarrow> string list list \<times> csv_error option" where
  "write_rows csvfile [] = (csvfile, None)"
| "write_rows csvfile (j # jobs) =
     (case writerow j of
        Inl e \<Rightarrow> (csvfile, Some e)
      | Inr row \<Rightarrow> write_rows (csvfile @ [row]) jobs)"

text \<open>
  \<open>save_to_csv\<close>: the rows of the file it leaves, and the exception it raised, if any.
  \<open>writeheader\<close> writes the field names.
\<close>

definition save_to_csv :: "job list \<Rightarrow> string list list \<times> csv_error option" where
  "save_to_csv jobs = write_rows [fieldnames] jobs"

section \<open>The web endpoint\<close>

text \<open>
  A value of the request's JSON object: a string, or anything else (a number, a list,
  \<open>null\<close>, ...), which has no \<open>strip\<close> method.
\<close>

datatype jvalue = JString string | JOther

text \<open>
  \<^verbatim>\<open>request.json\<close>: the access raised (\<open>NoJson\<close>, with the exception's message), or gave
  a value that is not a dictionary (\<open>NotDict\<close>), or gave a dictionary.
\<close>

datatype request = NoJson string | NotDict | Dict "string \<Rightarrow> jvalue option"

datatype payload =
    ErrorBody string
  | SuccessBody "job list" nat
  | FailureBody string

text \<open>\<^verbatim>\<open>data.get(key, default).strip()\<close>; \<open>Inl\<close> is the exception raised, as its message.\<close>

definition get_strip :: "(string \<Rightarrow> jvalue option) \<Rightarrow> string \<Rightarrow> string \<Rightarrow> string + string" where
  "get_strip data key dflt =
     (case data key of
        None \<Rightarrow> Inr (py_strip dflt)
      | Some (JString s) \<Rightarrow> Inr (py_strip s)
      | Some JOther \<Rightarrow> Inl ''AttributeError'')"

text \<open>
  The \<^verbatim>\<open>try\<close> block of the route \<open>/search\<close>. The pipeline is a parameter: it returns
  the jobs or raises (\<open>Inl\<close>, the message). The result is the status code and the JSON
  body, or the message of the exception that left the block.
\<close>

definition search_route_try ::
  "(string \<Rightarrow> string \<Rightarrow> string + job list) \<Rightarrow> request \<Rightarrow> string + (nat \<times> payload)" where
  "search_route_try searcher request =
     (case request of
        NoJson e \<Rightarrow> Inl e
      | NotDict \<Rightarrow> Inl ''AttributeError''
      | Dict data \<Rightarrow>
          (case get_strip data ''job_title'' [] of
             Inl e \<Rightarrow> Inl e
           | Inr job_title \<Rightarrow>
               (case get_strip data ''location'' ''India'' of
                  Inl e \<Rightarrow> Inl e
                | Inr loc \<Rightarrow>
                    if job_title = [] then Inr (400, ErrorBody ''Job title is required'')
                    else
                      (case searcher job_title loc of
                         Inl e \<Rightarrow> Inl e
                       | Inr jobs \<Rightarrow> Inr (200, SuccessBody jobs (length jobs))))))"

text \<open>The route with its \<^verbatim>\<open>except Exception as e\<close> branch.\<close>

definition search_route ::
  "(string \<Rightarrow> string \<Rightarrow> string + job list) \<Rightarrow> request \<Rightarrow> nat \<times> payload" where
  "search_route searcher request =
     (case search_route_try searcher request of
        Inr response \<Rightarrow> response
      | Inl e \<Rightarrow> (500, FailureBody e))"

text \<open>
  A request is well typed in a field when the field is missing or holds a string;
  \<open>field_text\<close> is then the string, or the default of a missing field.
\<close>

definition field_is_text :: "(string \<Rightarrow> jvalue option) \<Rightarrow> string \<Rightarrow> bool" where
  "field_is_text data key =
     (case data key of None \<Rightarrow> True | Some (JString s) \<Rightarrow> True | Some JOther \<Rightarrow> False)"


section \<open>Example inputs\<close>

text \<open>A job with a given title, company and source; the other fields are fixed.\<close>

definition example_job :: "string \<Rightarrow> string \<Rightarrow> string \<Rightarrow> job" where
  "example_job title' company' source' =
     \<lparr>title = title', company = company', location = ''Pune'', experience = ''2-5 years'',
      salary = ''Not disclosed'', description = None,
      apply_url = ''https://www.linkedin.com/jobs/view/1'', source = source'\<rparr>"




definition job_a1 :: job where "job_a1 = example_job ''a1'' ''Accenture'' ''TimesJobs''"
definition job_a2 :: job where "job_a2 = example_job ''a2'' ''Accenture'' ''TimesJobs''"
definition job_a3 :: job where "job_a3 = example_job ''a3'' ''Accenture'' ''TimesJobs''"
definition job_b1 :: job where "job_b1 = example_job ''b1'' ''Google'' ''LinkedIn''"
definition job_b2 :: job where "job_b2 = example_job ''b2'' ''Google'' ''LinkedIn''"

text \<open>Elements and cards given by what the selectors find.\<close>

definition text_elem :: "string \<Rightarrow> element" where
  "text_elem s = \<lparr>strings = [s], href = None\<rparr>"

definition link_elem :: "string \<Rightarrow> string \<Rightarrow> element" where
  "link_elem s h = \<lparr>strings = [s], href = Some h\<rparr>"

definition card_of :: "(string \<times> element) list \<Rightarrow> element list \<Rightarrow> element option \<Rightarrow> card" where
  "card_of found links first_a =
     \<lparr>select_one = map_of found, find_all_a_href = links, find_a = first_a\<rparr>"


text \<open>A card with a title and nothing else: no company, no link, no description.\<close>

definition title_only_card :: card where
  "title_only_card =
     card_of
       [(''h2 a'', text_elem ''Data Analyst''),
        (''h3'', text_elem ''Data Analyst'')]
       [] None"

text \<open>
  A card with a title linked by a relative URL, a company and a short description, but
  no location, experience or salary.
\<close>

definition short_description_card :: card where
  "short_description_card =
     card_of
       [(''h2 a'', link_elem ''Python Developer'' ''/job-detail/python-developer-1''),
        (''h3'', text_elem ''Python Developer''),
        (''.company-name'', text_elem ''TCS''),
        (''.job-description'', text_elem ''Great job''),
        (''.description'', text_elem ''Great job'')]
       [link_elem ''Python Developer'' ''/job-detail/python-developer-1'']
       (Some (link_elem ''Python Developer'' ''/job-detail/python-developer-1''))"


text \<open>A page on which no query finds anything.\<close>

definition empty_page :: page where
  "empty_page = \<lparr>select = (\<lambda>selector. []), find_all = (\<lambda>q. [])\<rparr>"





section \<open>Facts about the string primitives\<close>

lemma source_timesjobs:
  "py_in ''timesjobs'' (py_lower ''TimesJobs'')"
  "\<not> py_in ''linkedin'' (py_lower ''TimesJobs'')"
  by (simp_all add: py_lower_def lower_char_def)

lemma source_linkedin:
  "\<not> py_in ''timesjobs'' (py_lower ''LinkedIn'')"
  "py_in ''linkedin'' (py_lower ''LinkedIn'')"
  by (simp_all add: py_lower_def lower_char_def)

section \<open>Deduplication keeps the first record of every key\<close>

lemma remove_duplicates_loop_append:
  "remove_duplicates_loop seen acc jobs = acc @ remove_duplicates_loop seen [] jobs"
proof (induction jobs arbitrary: seen acc)
  case Nil
  then show ?case by simp
next
  case (Cons j jobs)
  show ?case
    using Cons.IH[of "insert (dedup_key j) seen" "acc @ [j]"]
      Cons.IH[of "insert (dedup_key j) seen" "[j]"] Cons.IH[of seen acc]
    by (simp add: Let_def)
qed

lemma remove_duplicates_loop_Cons:
  "remove_duplicates_loop seen [] (j # jobs) =
     (if dedup_key j \<in> seen then remove_duplicates_loop seen [] jobs
      else j # remove_duplicates_loop (insert (dedup_key j) seen) [] jobs)"
  using remove_duplicates_loop_append[of _ "[j]" jobs] by (simp add: Let_def)

lemma remove_duplicates_loop_subseq: "subseq (remove_duplicates_loop seen [] jobs) jobs"
proof (induction jobs arbitrary: seen)
  case Nil
  then show ?case by simp
next
  case (Cons j jobs)
  then show ?case
    by (auto simp: remove_duplicates_loop_Cons simp del: remove_duplicates_loop.simps)
qed




lemma remove_duplicates_subset: "set (remove_duplicates jobs) \<subseteq> set jobs"
  using remove_duplicates_loop_subseq[of "{}" jobs]
  by (auto simp: remove_duplicates_def dest: list_emb_set)




section \<open>The card parsers, field by field\<close>

lemma extract_company_fields [simp]:
  "title (extract_company s c j) = title j"
  "location (extract_company s c j) = location j"
  "experience (extract_company s c j) = experience j"
  "salary (extract_company s c j) = salary j"
  "description (extract_company s c j) = description j"
  "apply_url (extract_company s c j) = apply_url j"
  "source (extract_company s c j) = source j"
  by (simp_all add: extract_company_def split: option.splits)

lemma extract_location_fields [simp]:
  "title (extract_location s c j) = title j"
  "company (extract_location s c j) = company j"
  "experience (extract_location s c j) = experience j"
  "salary (extract_location s c j) = salary j"
  "description (extract_location s c j) = description j"
  "apply_url (extract_location s c j) = apply_url j"
  "source (extract_location s c j) = source j"
  by (simp_all add: extract_location_def split: option.splits)

lemma extract_experience_fields [simp]:
  "title (extract_experience s c j) = title j"
  "company (extract_experience s c j) = company j"
  "location (extract_experience s c j) = location j"
  "salary (extract_experience s c j) = salary j"
  "description (extract_experience s c j) = description j"
  "apply_url (extract_experience s c j) = apply_url j"
  "source (extract_experience s c j) = source j"
  by (simp_all add: extract_experience_def split: option.splits)

lemma extract_salary_fields [simp]:
  "title (extract_salary s c j) = title j"
  "company (extract_salary s c j) = company j"
  "location (extract_salary s c j) = location j"
  "experience (extract_salary s c j) = experience j"
  "description (extract_salary s c j) = description j"
  "apply_url (extract_salary s c j) = apply_url j"
  "source (extract_salary s c j) = source j"
  "salary (extract_salary s c j) =
     (case select_first c s of None \<Rightarrow> salary j | Some e \<Rightarrow> get_text_strip e)"
  by (simp_all add: extract_salary_def split: option.splits)

lemma extract_description_fields [simp]:
  "title (extract_description s c j) = title j"
  "company (extract_description s c j) = company j"
  "location (extract_description s c j) = location j"
  "experience (extract_description s c j) = experience j"
  "salary (extract_description s c j) = salary j"
  "apply_url (extract_description s c j) = apply_url j"
  "source (extract_description s c j) = source j"
  "description (extract_description s c j) =
     (case select_first c s of
        None \<Rightarrow> description j
      | Some e \<Rightarrow> Some (take 200 (get_text_strip e) @ ''...''))"
  by (simp_all add: extract_description_def split: option.splits)

lemma apna_any_link_fields [simp]:
  "title (apna_any_link ls j) = title j"
  "company (apna_any_link ls j) = company j"
  "location (apna_any_link ls j) = location j"
  "experience (apna_any_link ls j) = experience j"
  "salary (apna_any_link ls j) = salary j"
  "description (apna_any_link ls j) = description j"
  "source (apna_any_link ls j) = source j"
  by (induction ls j rule: apna_any_link.induct; simp split: option.splits)+

lemma apna_links_fields [simp]:
  "title (apna_links c j) = title j"
  "company (apna_links c j) = company j"
  "location (apna_links c j) = location j"
  "experience (apna_links c j) = experience j"
  "salary (apna_links c j) = salary j"
  "description (apna_links c j) = description j"
  "source (apna_links c j) = source j"
  by (simp_all add: apna_links_def)

lemma apna_title_text_fields [simp]:
  "company (apna_title_text c j) = company j"
  "location (apna_title_text c j) = location j"
  "experience (apna_title_text c j) = experience j"
  "salary (apna_title_text c j) = salary j"
  "description (apna_title_text c j) = description j"
  "apply_url (apna_title_text c j) = apply_url j"
  "source (apna_title_text c j) = source j"
  by (simp_all add: apna_title_text_def split: option.splits)

lemma apna_title_link_fields [simp]:
  "company (apna_title_link c j) = company j"
  "location (apna_title_link c j) = location j"
  "experience (apna_title_link c j) = experience j"
  "salary (apna_title_link c j) = salary j"
  "description (apna_title_link c j) = description j"
  "source (apna_title_link c j) = source j"
  by (simp_all add: apna_title_link_def Let_def split: option.splits)

lemma timesjobs_title_link_fields [simp]:
  "company (timesjobs_title_link c j) = company j"
  "location (timesjobs_title_link c j) = location j"
  "experience (timesjobs_title_link c j) = experience j"
  "salary (timesjobs_title_link c j) = salary j"
  "description (timesjobs_title_link c j) = description j"
  "source (timesjobs_title_link c j) = source j"
  by (simp_all add: timesjobs_title_link_def Let_def split: option.splits)

lemma indeed_title_link_fields [simp]:
  "company (indeed_title_link c j) = company j"
  "location (indeed_title_link c j) = location j"
  "experience (indeed_title_link c j) = experience j"
  "salary (indeed_title_link c j) = salary j"
  "description (indeed_title_link c j) = description j"
  "source (indeed_title_link c j) = source j"
  by (simp_all add: indeed_title_link_def Let_def split: option.splits)

lemma apna_extract_fields:
  "source (apna_extract c) = ''Apna.co''"
  "experience (apna_extract c) = []"
  "salary (apna_extract c) =
     (case select_first c apna_salary_selectors of
        None \<Rightarrow> ''Not disclosed'' | Some e \<Rightarrow> get_text_strip e)"
  "description (apna_extract c) =
     (case select_first c apna_desc_selectors of
        None \<Rightarrow> Some []
      | Some e \<Rightarrow> Some (take 200 (get_text_strip e) @ ''...''))"
  by (simp_all add: apna_extract_def apna_init_def split: option.splits)

lemma timesjobs_extract_fields:
  "source (timesjobs_extract c) = ''TimesJobs''"
  "salary (timesjobs_extract c) =
     (case select_first c timesjobs_salary_selectors of
        None \<Rightarrow> ''Not disclosed'' | Some e \<Rightarrow> get_text_strip e)"
  "description (timesjobs_extract c) =
     (case select_first c timesjobs_desc_selectors of
        None \<Rightarrow> Some []
      | Some e \<Rightarrow> Some (take 200 (get_text_strip e) @ ''...''))"
  by (simp_all add: timesjobs_extract_def timesjobs_init_def split: option.splits)

lemma indeed_extract_fields:
  "source (indeed_extract c) = ''Indeed''"
  "experience (indeed_extract c) = []"
  "salary (indeed_extract c) =
     (case select_first c indeed_salary_selectors of
        None \<Rightarrow> ''Not disclosed'' | Some e \<Rightarrow> get_text_strip e)"
  "description (indeed_extract c) =
     (case select_first c indeed_desc_selectors of
        None \<Rightarrow> Some []
      | Some e \<Rightarrow> Some (take 200 (get_text_strip e) @ ''...''))"
  by (simp_all add: indeed_extract_def indeed_init_def split: option.splits)

lemma apna_finish_eq:
  "apna_finish d =
     (if title d \<noteq> [] then
        Some (d\<lparr>company := (if company d = [] then ''Various Companies'' else company d),
                location := (if location d = [] then ''India'' else location d),
                experience := (if experience d = [] then ''As per requirement'' else experience d),
                apply_url :=
                  (if apply_url d = ''#'' \<or> \<not> is_valid_job_url (apply_url d)
                   then get_fallback_job_url (title d)
                          (if company d = [] then ''Various Companies'' else company d) ''Apna.co''
                   else apply_url d)\<rparr>)
      else None)"
  unfolding apna_finish_def Let_def
  by (cases "company d = []"; cases "location d = []"; cases "experience d = []";
      cases "apply_url d = ''#'' \<or> \<not> is_valid_job_url (apply_url d)") simp_all

lemma timesjobs_finish_eq:
  "timesjobs_finish d =
     (if title d \<noteq> [] \<and> company d \<noteq> [] then
        Some (d\<lparr>location := (if location d = [] then ''India'' else location d),
                experience := (if experience d = [] then ''As per requirement'' else experience d),
                apply_url :=
                  (if apply_url d = ''#''
                   then get_fallback_job_url (title d) (company d) ''TimesJobs''
                   else apply_url d)\<rparr>)
      else None)"
  unfolding timesjobs_finish_def Let_def
  by (cases "location d = []"; cases "experience d = []"; cases "apply_url d = ''#''") simp_all

lemma indeed_finish_eq:
  "indeed_finish d =
     (if title d \<noteq> [] \<and> company d \<noteq> [] then
        Some (d\<lparr>location := (if location d = [] then ''Remote'' else location d),
                experience := (if experience d = [] then ''Not specified'' else experience d)\<rparr>)
      else None)"
  unfolding indeed_finish_def Let_def
  by (cases "location d = []"; cases "experience d = []") simp_all

lemma parse_timesjobs_source: "parse_timesjobs_job_card c = Some j \<Longrightarrow> source j = ''TimesJobs''"
  by (auto simp: parse_timesjobs_job_card_def timesjobs_finish_eq timesjobs_extract_fields
      split: if_splits)

lemma parse_apna_source: "parse_apna_job_card c = Some j \<Longrightarrow> source j = ''Apna.co''"
  by (auto simp: parse_apna_job_card_def apna_finish_eq apna_extract_fields split: if_splits)

lemma parse_linkedin_source: "parse_linkedin_job c = Some j \<Longrightarrow> source j = ''LinkedIn''"
  by (auto simp: parse_linkedin_job_def Let_def)

lemma parse_cards_set: "j \<in> set (parse_cards parse n cs) \<Longrightarrow> \<exists>c. parse c = Some j"
  by (auto simp: parse_cards_def List.map_filter_def)

lemma sample_timesjobs_source:
  "j \<in> set (get_sample_timesjobs job_title loc) \<Longrightarrow> source j = ''TimesJobs''"
  by (auto simp: get_sample_timesjobs_def Let_def)

lemma sample_apna_source:
  "j \<in> set (get_sample_apna_jobs job_title loc) \<Longrightarrow> source j = ''Apna.co''"
  by (auto simp: get_sample_apna_jobs_def Let_def)

lemma sample_linkedin_source:
  "j \<in> set (get_sample_linkedin_jobs job_title) \<Longrightarrow> source j = ''LinkedIn''"
  by (auto simp: get_sample_linkedin_jobs_def Let_def)

lemma search_timesjobs_source:
  "j \<in> set (search_timesjobs response job_title loc) \<Longrightarrow> source j = ''TimesJobs''"
  by (auto simp: search_timesjobs_def Let_def split: fetch.splits if_splits
      dest: sample_timesjobs_source parse_cards_set parse_timesjobs_source)

lemma search_linkedin_source:
  "j \<in> set (search_linkedin response job_title loc) \<Longrightarrow> source j = ''LinkedIn''"
  by (auto simp: search_linkedin_def Let_def split: fetch.splits if_splits
      dest: sample_linkedin_source parse_cards_set parse_linkedin_source)

lemma collect_jobs_source:
  "j \<in> set (collect_jobs timesjobs_response linkedin_response job_title loc) \<Longrightarrow>
     source j = ''TimesJobs'' \<or> source j = ''LinkedIn''"
  by (auto simp: collect_jobs_def Let_def split: if_splits
      dest: search_timesjobs_source search_linkedin_source sample_timesjobs_source in_set_takeD)

section \<open>Mixing the two sources\<close>

lemma mix_rounds:
  "fold (mix_step ts ls) [0..<n] [] =
     concat (map (\<lambda>i. (if i < length ts then [ts ! i] else [])
                       @ (if i < length ls then [ls ! i] else [])) [0..<n])"
  by (induction n) (simp_all add: mix_step_def Let_def)

lemma mix_rounds_length:
  "length (fold (mix_step ts ls) [0..<n] []) = min n (length ts) + min n (length ls)"
  by (induction n) (auto simp: mix_step_def Let_def)

lemma mix_rounds_filter_first:
  assumes "\<forall>x\<in>set ts. P x" and "\<forall>y\<in>set ls. \<not> P y"
  shows "filter P (fold (mix_step ts ls) [0..<n] []) = take n ts"
  using assms by (induction n) (auto simp: mix_step_def Let_def take_Suc_conv_app_nth)

lemma mix_rounds_filter_second:
  assumes "\<forall>x\<in>set ts. \<not> P x" and "\<forall>y\<in>set ls. P y"
  shows "filter P (fold (mix_step ts ls) [0..<n] []) = take n ls"
  using assms by (induction n) (auto simp: mix_step_def Let_def take_Suc_conv_app_nth)

lemma mix_rounds_filter_none:
  assumes "\<forall>x\<in>set ts. \<not> P x" and "\<forall>y\<in>set ls. \<not> P y"
  shows "filter P (fold (mix_step ts ls) [0..<n] []) = []"
  using assms by (induction n) (auto simp: mix_step_def Let_def)

lemma mix_jobs_round_robin: "mix_jobs ts ls = round_robin [ts, ls]"
  by (simp add: mix_jobs_def round_robin_def mix_rounds max.commute)

lemma mix_jobs_length: "length (mix_jobs ts ls) = length ts + length ls"
  by (simp add: mix_jobs_def mix_rounds_length)

lemma mix_jobs_three_two: "mix_jobs [a1, a2, a3] [b1, b2] = [a1, b1, a2, b2, a3]"
  by (simp add: mix_jobs_def mix_step_def upt_rec[of 0] upt_rec[of 1] upt_rec[of 2]
      upt_rec[of 3] numeral_3_eq_3 numeral_2_eq_2)

text \<open>
  Claim C2. The mixing loop of \<open>search_jobs\<close> is the round-robin merge of the
  TimesJobs records and the LinkedIn records, TimesJobs first in every round: round \<open>i\<close>
  emits the \<open>i\<close>-th record of each of the two lists that has one. It ends only when
  both lists are used up, so the result has as many records as the two lists together.
  For [a1, a2, a3] and [b1, b2] the result is [a1, b1, a2, b2, a3].
\<close>

theorem mix_jobs_is_round_robin:
  "mix_jobs timesjobs_jobs linkedin_jobs = round_robin [timesjobs_jobs, linkedin_jobs] \<and>
   length (mix_jobs timesjobs_jobs linkedin_jobs)
     = length timesjobs_jobs + length linkedin_jobs \<and>
   mix_jobs [a1, a2, a3] [b1, b2] = [a1, b1, a2, b2, a3] \<and>
   interleave unique_jobs =
     round_robin
       [filter (\<lambda>job. py_in ''timesjobs'' (py_lower (source job))) unique_jobs,
        filter (\<lambda>job. py_in ''linkedin'' (py_lower (source job))) unique_jobs]"
  by (simp add: mix_jobs_length mix_jobs_three_two interleave_def Let_def
      flip: mix_jobs_round_robin)

lemma example_sources:
  "source job_a1 = ''TimesJobs''" "source job_a2 = ''TimesJobs''"
  "source job_a3 = ''TimesJobs''" "source job_b1 = ''LinkedIn''" "source job_b2 = ''LinkedIn''"
  by (simp_all add: job_a1_def job_a2_def job_a3_def job_b1_def job_b2_def example_job_def)

theorem mix_jobs_is_round_robin_witness:
  "interleave [job_a1, job_a2, job_a3, job_b1, job_b2]
     = [job_a1, job_b1, job_a2, job_b2, job_a3] \<and>
   round_robin [[job_a1, job_a2, job_a3], [job_b1, job_b2]]
     = [job_a1, job_b1, job_a2, job_b2, job_a3]"
proof -
  let ?ts = "[job_a1, job_a2, job_a3]" and ?ls = "[job_b1, job_b2]"
  let ?mixed = "[job_a1, job_b1, job_a2, job_b2, job_a3]"
  note inst = mix_jobs_is_round_robin[of ?ts ?ls job_a1 job_a2 job_a3 job_b1 job_b2 "?ts @ ?ls"]
  have rounds: "round_robin [?ts, ?ls] = mix_jobs ?ts ?ls"
    using inst by simp
  have mixed: "mix_jobs ?ts ?ls = ?mixed"
    using inst by blast
  have "interleave (?ts @ ?ls) = round_robin [?ts, ?ls]"
    using inst by (simp add: example_sources source_timesjobs source_linkedin)
  then show ?thesis
    by (simp add: rounds mixed)
qed

section \<open>The mix keeps every source's records in order\<close>

lemma interleave_source:
  assumes "\<forall>j\<in>set unique_jobs. source j = ''TimesJobs'' \<or> source j = ''LinkedIn''"
  shows "filter (\<lambda>j. source j = S) (interleave unique_jobs)
           = filter (\<lambda>j. source j = S) unique_jobs"
proof -
  let ?L = "filter (\<lambda>job. py_in ''linkedin'' (py_lower (source job))) unique_jobs"
  let ?T = "filter (\<lambda>job. py_in ''timesjobs'' (py_lower (source job))) unique_jobs"
  have L: "?L = filter (\<lambda>j. source j = ''LinkedIn'') unique_jobs"
    using assms by (intro filter_cong) (auto simp: source_timesjobs source_linkedin)
  have T: "?T = filter (\<lambda>j. source j = ''TimesJobs'') unique_jobs"
    using assms by (intro filter_cong) (auto simp: source_timesjobs source_linkedin)
  have mix: "interleave unique_jobs = fold (mix_step ?T ?L) [0..<max (length ?L) (length ?T)] []"
    by (simp add: interleave_def mix_jobs_def Let_def)
  consider "S = ''TimesJobs''" | "S = ''LinkedIn''" | "S \<noteq> ''TimesJobs''" "S \<noteq> ''LinkedIn''"
    by blast
  then show ?thesis
  proof cases
    case 1
    have "filter (\<lambda>j. source j = S) (interleave unique_jobs)
            = take (max (length ?L) (length ?T)) ?T"
      unfolding mix by (rule mix_rounds_filter_first) (auto simp: L T 1)
    then show ?thesis by (simp add: T 1)
  next
    case 2
    have "filter (\<lambda>j. source j = S) (interleave unique_jobs)
            = take (max (length ?L) (length ?T)) ?L"
      unfolding mix by (rule mix_rounds_filter_second) (auto simp: L T 2)
    then show ?thesis by (simp add: L 2)
  next
    case 3
    have "filter (\<lambda>j. source j = S) (interleave unique_jobs) = []"
      unfolding mix by (rule mix_rounds_filter_none) (auto simp: L T 3)
    moreover have "filter (\<lambda>j. source j = S) unique_jobs = []"
      using assms 3 by (auto simp: filter_empty_conv)
    ultimately show ?thesis by simp
  qed
qed

text \<open>
  Claim C3. For every source \<open>S\<close>, the records of the mixed result whose source is \<open>S\<close>
  are the records of the deduplicated list whose source is \<open>S\<close>, in the same order:
  nothing is reordered, dropped or duplicated. The mixing code selects its two lists by
  the substrings \<open>timesjobs\<close> and \<open>linkedin\<close> of the lower-cased source, so the property
  rests on every record being tagged TimesJobs or LinkedIn; every list \<open>search_jobs\<close>
  deduplicates is, whatever the two sites answered.
\<close>

theorem interleave_preserves_source_order:
  "((\<forall>j\<in>set unique_jobs. source j = ''TimesJobs'' \<or> source j = ''LinkedIn'') \<longrightarrow>
      filter (\<lambda>j. source j = S) (interleave unique_jobs)
        = filter (\<lambda>j. source j = S) unique_jobs) \<and>
   filter (\<lambda>j. source j = S) (search_jobs timesjobs_response linkedin_response job_title loc)
     = filter (\<lambda>j. source j = S)
         (remove_duplicates (collect_jobs timesjobs_response linkedin_response job_title loc))"
proof -
  have "\<forall>j\<in>set (remove_duplicates
            (collect_jobs timesjobs_response linkedin_response job_title loc)).
          source j = ''TimesJobs'' \<or> source j = ''LinkedIn''"
    using remove_duplicates_subset collect_jobs_source by blast
  then show ?thesis
    by (simp add: search_jobs_def interleave_source)
qed

theorem interleave_preserves_source_order_witness:
  "source job_a1 = ''TimesJobs'' \<and> source job_b1 = ''LinkedIn'' \<and>
   source job_a2 = ''TimesJobs'' \<and> source job_b2 = ''LinkedIn'' \<and>
   filter (\<lambda>j. source j = ''LinkedIn'') (interleave [job_a1, job_b1, job_b2, job_a2])
     = [job_b1, job_b2] \<and>
   filter (\<lambda>j. source j = ''TimesJobs'') (interleave [job_a1, job_b1, job_b2, job_a2])
     = [job_a1, job_a2]"
  using interleave_preserves_source_order[of "[job_a1, job_b1, job_b2, job_a2]" "''LinkedIn''"]
    interleave_preserves_source_order[of "[job_a1, job_b1, job_b2, job_a2]" "''TimesJobs''"]
  by (simp add: example_sources)

section \<open>Facts about job URLs and extracted titles\<close>

lemma py_in_iff: "py_in pat s \<longleftrightarrow> (\<exists>ps ss. s = ps @ pat @ ss)"
proof (induction s)
  case Nil
  then show ?case by auto
next
  case (Cons c cs)
  show ?case
  proof
    assume "py_in pat (c # cs)"
    then consider "prefix pat (c # cs)" | "py_in pat cs" by auto
    then show "\<exists>ps ss. c # cs = ps @ pat @ ss"
    proof cases
      case 1
      then obtain ss where "c # cs = pat @ ss" by (auto simp: prefix_def)
      then have "c # cs = [] @ pat @ ss" by simp
      then show ?thesis by blast
    next
      case 2
      then obtain ps ss where "cs = ps @ pat @ ss" using Cons.IH by blast
      then have "c # cs = (c # ps) @ pat @ ss" by simp
      then show ?thesis by blast
    qed
  next
    assume "\<exists>ps ss. c # cs = ps @ pat @ ss"
    then obtain ps ss where eq: "c # cs = ps @ pat @ ss" by blast
    show "py_in pat (c # cs)"
    proof (cases ps)
      case Nil
      then have "prefix pat (c # cs)" using eq by (simp add: prefix_def)
      then show ?thesis by simp
    next
      case (Cons p ps')
      then have "cs = ps' @ pat @ ss" using eq by simp
      then have "py_in pat cs" using Cons.IH by blast
      then show ?thesis by simp
    qed
  qed
qed

lemma py_in_append: "py_in pat s \<Longrightarrow> py_in pat (p @ s)"
  unfolding py_in_iff by (metis append.assoc)

lemma py_lower_append: "py_lower (a @ b) = py_lower a @ py_lower b"
  by (simp add: py_lower_def)

lemma is_valid_job_url_patterns:
  "is_valid_job_url url = list_ex (\<lambda>pattern. py_in pattern (py_lower url)) job_patterns"
  by (cases url) (simp_all add: is_valid_job_url_def job_patterns_def py_lower_def)

lemma is_valid_job_url_append: "is_valid_job_url h \<Longrightarrow> is_valid_job_url (p @ h)"
  by (auto simp: is_valid_job_url_patterns list_ex_iff py_lower_append intro: py_in_append)













lemma apna_resolved_update:
  "(if startswith h ''/'' then j\<lparr>apply_url := ''https://apna.co'' @ h\<rparr>
    else j\<lparr>apply_url := h\<rparr>) = j\<lparr>apply_url := apna_resolved h\<rparr>"
  by (simp add: apna_resolved_def)

lemma apna_resolved_valid: "is_valid_job_url h \<Longrightarrow> is_valid_job_url (apna_resolved h)"
  unfolding apna_resolved_def
  by (cases "startswith h ''/''") (simp_all only: if_True if_False is_valid_job_url_append)

lemma apna_any_link_url:
  "apply_url (apna_any_link ls j) = apply_url j \<or>
   (\<exists>h. is_valid_job_url h \<and> apply_url (apna_any_link ls j) = apna_resolved h)"
proof (induction ls j rule: apna_any_link.induct)
  case (1 job_data)
  then show ?case by simp
next
  case (2 link all_links job_data)
  show ?case
  proof (cases "href link")
    case None
    then show ?thesis using 2(1) by simp
  next
    case (Some h)
    show ?thesis
    proof (cases "h \<noteq> [] \<and> is_valid_job_url h")
      case True
      then have "apply_url (apna_any_link (link # all_links) job_data) = apna_resolved h"
        using Some by (simp add: apna_resolved_def)
      then show ?thesis using True by blast
    next
      case False
      then show ?thesis using 2(2)[OF Some] Some by auto
    qed
  qed
qed

lemma apna_title_link_url:
  "apply_url (apna_title_link c j) = apply_url j \<or>
   (\<exists>h. is_valid_job_url h \<and> apply_url (apna_title_link c j) = apna_resolved h)"
proof (cases "select_first c apna_title_selectors")
  case None
  then show ?thesis by (simp add: apna_title_link_def)
next
  case (Some e)
  show ?thesis
  proof (cases "href e")
    case None
    then show ?thesis using Some by (simp add: apna_title_link_def Let_def)
  next
    case h: (Some h)
    show ?thesis
    proof (cases "h \<noteq> [] \<and> is_valid_job_url h")
      case True
      then have "apply_url (apna_title_link c j) = apna_resolved h"
        using Some h by (simp add: apna_title_link_def Let_def apna_resolved_def)
      then show ?thesis using True by blast
    next
      case False
      then show ?thesis using Some h by (auto simp: apna_title_link_def Let_def)
    qed
  qed
qed

lemma apna_extract_url:
  "apply_url (apna_extract c) = ''#'' \<or>
   (\<exists>h. is_valid_job_url h \<and> apply_url (apna_extract c) = apna_resolved h)"
proof -
  let ?j1 = "apna_title_text c (apna_title_link c apna_init)"
  have ex: "apply_url (apna_extract c) = apply_url (apna_links c ?j1)"
    by (simp add: apna_extract_def)
  have j1: "apply_url ?j1 = apply_url (apna_title_link c apna_init)" by simp
  have init: "apply_url apna_init = ''#''" by (simp add: apna_init_def)
  show ?thesis
  proof (cases "apply_url ?j1 = ''#''")
    case True
    then show ?thesis
      using apna_any_link_url[of "find_all_a_href c" ?j1] unfolding ex apna_links_def by auto
  next
    case False
    then have "apply_url (apna_links c ?j1) = apply_url (apna_title_link c apna_init)"
      by (simp add: apna_links_def)
    then show ?thesis
      using apna_title_link_url[of c apna_init] False unfolding ex j1 init by auto
  qed
qed

lemma apna_extract_url_valid:
  "apply_url (apna_extract c) = ''#'' \<or> is_valid_job_url (apply_url (apna_extract c))"
  using apna_extract_url[of c] by (auto simp: apna_resolved_valid)





section \<open>Cards with an empty title\<close>





section \<open>Defaults of the optional fields\<close>

text \<open>
  Claim C5 as stated does not hold: the defaults depend on the source. For a LinkedIn
  card with no company and no location the record has company \<open>Tech Company\<close>, not
  \<open>Various Companies\<close>, location \<open>Remote\<close> and experience \<open>Not specified\<close>.
\<close>

theorem linkedin_default_company_counterexample:
  "get_text title_only_card linkedin_company_selectors = [] \<and>
   get_text title_only_card linkedin_location_selectors = [] \<and>
   parse_linkedin_job title_only_card =
     Some \<lparr>title = ''Data Analyst'', company = ''Tech Company'', location = ''Remote'',
           experience = ''Not specified'', salary = ''Not disclosed'', description = None,
           apply_url = ''#'', source = ''LinkedIn''\<rparr>"
  by code_simp

lemma apna_defaults:
  assumes "parse_apna_job_card c = Some j"
  shows "company j = (if company (apna_extract c) = [] then ''Various Companies''
                      else company (apna_extract c))"
    and "location j = (if location (apna_extract c) = [] then ''India''
                       else location (apna_extract c))"
    and "experience j = ''As per requirement''"
    and "salary j = salary (apna_extract c)"
    and "description j = description (apna_extract c)"
    and "source j = ''Apna.co''"
  using assms
  by (auto simp: parse_apna_job_card_def apna_finish_eq apna_extract_fields split: if_splits)

lemma timesjobs_defaults:
  assumes "parse_timesjobs_job_card c = Some j"
  shows "company j = company (timesjobs_extract c)" and "company j \<noteq> []"
    and "location j = (if location (timesjobs_extract c) = [] then ''India''
                       else location (timesjobs_extract c))"
    and "experience j = (if experience (timesjobs_extract c) = [] then ''As per requirement''
                         else experience (timesjobs_extract c))"
    and "salary j = salary (timesjobs_extract c)"
    and "description j = description (timesjobs_extract c)"
  using assms
  by (auto simp: parse_timesjobs_job_card_def timesjobs_finish_eq split: if_splits)

lemma indeed_defaults:
  assumes "parse_indeed_job_card c = Some j"
  shows "company j = company (indeed_extract c)" and "company j \<noteq> []"
    and "location j = (if location (indeed_extract c) = [] then ''Remote''
                       else location (indeed_extract c))"
    and "experience j = ''Not specified''"
    and "salary j = salary (indeed_extract c)"
    and "description j = description (indeed_extract c)"
    and "apply_url j = apply_url (indeed_extract c)"
  using assms
  by (auto simp: parse_indeed_job_card_def indeed_finish_eq indeed_extract_fields
      split: if_splits)

lemma linkedin_fields:
  assumes "parse_linkedin_job c = Some j"
  shows "company j = or_default (get_text c linkedin_company_selectors) ''Tech Company''"
    and "location j = or_default (get_text c linkedin_location_selectors) ''Remote''"
    and "experience j = ''Not specified''"
    and "salary j = ''Not disclosed''"
    and "description j = None"
    and "apply_url j = linkedin_job_link c"
  using assms by (auto simp: parse_linkedin_job_def Let_def)

text \<open>
  Claim C5, amended. Every record a card parser returns has that parser's defaults in
  the place of an empty field. Apna: company \<open>Various Companies\<close>, location
  \<open>India\<close>, experience \<open>As per requirement\<close>. TimesJobs: location \<open>India\<close>,
  experience \<open>As per requirement\<close>; the company is never defaulted, a card without
  one gives no record. Indeed: location \<open>Remote\<close>, experience \<open>Not specified\<close>.
  LinkedIn: company \<open>Tech Company\<close>, location \<open>Remote\<close>, experience always
  \<open>Not specified\<close>, salary always \<open>Not disclosed\<close>. For the other three the salary
  is \<open>Not disclosed\<close> when no salary element is found.
\<close>

theorem parser_defaults:
  "(parse_apna_job_card c = Some j \<longrightarrow>
      company j = (if company (apna_extract c) = [] then ''Various Companies''
                   else company (apna_extract c)) \<and>
      location j = (if location (apna_extract c) = [] then ''India''
                    else location (apna_extract c)) \<and>
      experience j = ''As per requirement'' \<and>
      (select_first c apna_salary_selectors = None \<longrightarrow> salary j = ''Not disclosed'')) \<and>
   (parse_timesjobs_job_card c = Some j \<longrightarrow>
      company j = company (timesjobs_extract c) \<and> company j \<noteq> [] \<and>
      location j = (if location (timesjobs_extract c) = [] then ''India''
                    else location (timesjobs_extract c)) \<and>
      experience j = (if experience (timesjobs_extract c) = [] then ''As per requirement''
                      else experience (timesjobs_extract c)) \<and>
      (select_first c timesjobs_salary_selectors = None \<longrightarrow> salary j = ''Not disclosed'')) \<and>
   (parse_indeed_job_card c = Some j \<longrightarrow>
      company j = company (indeed_extract c) \<and> company j \<noteq> [] \<and>
      location j = (if location (indeed_extract c) = [] then ''Remote''
                    else location (indeed_extract c)) \<and>
      experience j = ''Not specified'' \<and>
      (select_first c indeed_salary_selectors = None \<longrightarrow> salary j = ''Not disclosed'')) \<and>
   (parse_linkedin_job c = Some j \<longrightarrow>
      company j = or_default (get_text c linkedin_company_selectors) ''Tech Company'' \<and>
      location j = or_default (get_text c linkedin_location_selectors) ''Remote'' \<and>
      experience j = ''Not specified'' \<and>
      salary j = ''Not disclosed'')"
proof -
  have apna: "parse_apna_job_card c = Some j \<longrightarrow>
      company j = (if company (apna_extract c) = [] then ''Various Companies''
                   else company (apna_extract c)) \<and>
      location j = (if location (apna_extract c) = [] then ''India''
                    else location (apna_extract c)) \<and>
      experience j = ''As per requirement'' \<and>
      (select_first c apna_salary_selectors = None \<longrightarrow> salary j = ''Not disclosed'')"
    using apna_defaults[of c j] by (simp add: apna_extract_fields)
  have times: "parse_timesjobs_job_card c = Some j \<longrightarrow>
      company j = company (timesjobs_extract c) \<and> company j \<noteq> [] \<and>
      location j = (if location (timesjobs_extract c) = [] then ''India''
                    else location (timesjobs_extract c)) \<and>
      experience j = (if experience (timesjobs_extract c) = [] then ''As per requirement''
                      else experience (timesjobs_extract c)) \<and>
      (select_first c timesjobs_salary_selectors = None \<longrightarrow> salary j = ''Not disclosed'')"
    using timesjobs_defaults[of c j] by (simp add: timesjobs_extract_fields)
  have indeed: "parse_indeed_job_card c = Some j \<longrightarrow>
      company j = company (indeed_extract c) \<and> company j \<noteq> [] \<and>
      location j = (if location (indeed_extract c) = [] then ''Remote''
                    else location (indeed_extract c)) \<and>
      experience j = ''Not specified'' \<and>
      (select_first c indeed_salary_selectors = None \<longrightarrow> salary j = ''Not disclosed'')"
    using indeed_defaults[of c j] by (simp add: indeed_extract_fields)
  have linkedin: "parse_linkedin_job c = Some j \<longrightarrow>
      company j = or_default (get_text c linkedin_company_selectors) ''Tech Company'' \<and>
      location j = or_default (get_text c linkedin_location_selectors) ''Remote'' \<and>
      experience j = ''Not specified'' \<and>
      salary j = ''Not disclosed''"
    using linkedin_fields[of c j] by simp
  show ?thesis
    using apna times indeed linkedin by (intro conjI)
qed

theorem parser_defaults_witness:
  "(\<exists>j. parse_timesjobs_job_card short_description_card = Some j \<and>
        location (timesjobs_extract short_description_card) = [] \<and> location j = ''India'' \<and>
        experience (timesjobs_extract short_description_card) = [] \<and>
        experience j = ''As per requirement'' \<and>
        select_first short_description_card timesjobs_salary_selectors = None \<and>
        salary j = ''Not disclosed'') \<and>
   (\<exists>j. parse_apna_job_card title_only_card = Some j \<and>
        company (apna_extract title_only_card) = [] \<and> company j = ''Various Companies'') \<and>
   (\<exists>j. parse_linkedin_job title_only_card = Some j \<and>
        get_text title_only_card linkedin_company_selectors = [] \<and>
        company j = ''Tech Company'')"
proof -
  have "parse_timesjobs_job_card short_description_card \<noteq> None" by code_simp
  then obtain j1 where j1: "parse_timesjobs_job_card short_description_card = Some j1" by blast
  have "parse_apna_job_card title_only_card \<noteq> None" by code_simp
  then obtain j2 where j2: "parse_apna_job_card title_only_card = Some j2" by blast
  obtain j3 where j3: "parse_linkedin_job title_only_card = Some j3"
    by (simp add: parse_linkedin_job_def Let_def)
  have absent: "location (timesjobs_extract short_description_card) = []"
    "experience (timesjobs_extract short_description_card) = []"
    "select_first short_description_card timesjobs_salary_selectors = None"
    "company (apna_extract title_only_card) = []"
    "get_text title_only_card linkedin_company_selectors = []"
    by code_simp+
  have "location j1 = ''India'' \<and> experience j1 = ''As per requirement'' \<and>
        salary j1 = ''Not disclosed''"
    using parser_defaults[of short_description_card j1] j1 absent by simp
  moreover have "company j2 = ''Various Companies''"
    using parser_defaults[of title_only_card j2] j2 absent by simp
  moreover have "company j3 = ''Tech Company''"
    using parser_defaults[of title_only_card j3] j3 absent by (simp add: or_default_def)
  ultimately show ?thesis
    using j1 j2 j3 absent by simp
qed

section \<open>The description\<close>




section \<open>The apply URL\<close>








section \<open>What the search functions return\<close>

text \<open>
  Claim C8. Every search function should return a non-empty list of records of its
  source even when the live extraction gives nothing. \<open>search_linkedin\<close> does not:
  it takes its sample jobs only when the request raises, so a response with status 200
  and no job card, or a response with another status, makes it return the empty list.
  \<open>search_timesjobs\<close> and \<open>search_apna\<close> never return the empty list, as the
  lemmas after the theorem show.
\<close>

theorem search_linkedin_returns_nothing:
  "search_linkedin (Response 200 empty_page) ''Python Developer'' ''India'' = [] \<and>
   search_linkedin (Response 429 empty_page) ''Python Developer'' ''India'' = []"
  by (simp add: search_linkedin_def empty_page_def parse_cards_def List.map_filter_def)

lemma sample_timesjobs_nonempty: "get_sample_timesjobs job_title loc \<noteq> []"
  by (simp add: get_sample_timesjobs_def Let_def upt_rec[of 0])

lemma sample_apna_nonempty: "get_sample_apna_jobs job_title loc \<noteq> []"
  by (simp add: get_sample_apna_jobs_def Let_def upt_rec[of 0])

lemma sample_linkedin_nonempty: "get_sample_linkedin_jobs job_title \<noteq> []"
  by (simp add: get_sample_linkedin_jobs_def Let_def upt_rec[of 0])

lemma search_timesjobs_nonempty: "search_timesjobs response job_title loc \<noteq> []"
  by (simp add: search_timesjobs_def Let_def sample_timesjobs_nonempty split: fetch.splits)

lemma search_apna_nonempty: "search_apna response job_title loc \<noteq> []"
  by (simp add: search_apna_def Let_def sample_apna_nonempty split: fetch.splits)

lemma search_apna_source:
  "j \<in> set (search_apna response job_title loc) \<Longrightarrow> source j = ''Apna.co''"
  by (auto simp: search_apna_def Let_def split: fetch.splits if_splits
      dest: sample_apna_source parse_cards_set parse_apna_source)

lemma search_linkedin_raised_nonempty: "search_linkedin Raised job_title loc \<noteq> []"
  by (simp add: search_linkedin_def sample_linkedin_nonempty)

section \<open>Writing the CSV file\<close>

lemma writerow_description: "description j = Some d \<Longrightarrow> writerow j = Inl ValueError"
  by (simp add: writerow_def keys_def fieldnames_def)

lemma writerow_plain:
  "description j = None \<Longrightarrow>
     writerow j = Inr [title j, company j, location j, experience j, salary j, apply_url j, source j]"
  by (simp add: writerow_def keys_def fieldnames_def dict_get_def)

lemma write_rows_plain:
  "\<forall>j\<in>set jobs. description j = None \<Longrightarrow>
     write_rows csvfile jobs =
       (csvfile @ map (\<lambda>j. [title j, company j, location j, experience j, salary j,
                              apply_url j, source j]) jobs, None)"
  by (induction jobs arbitrary: csvfile) (simp_all add: writerow_plain)

lemma save_to_csv_plain:
  "\<forall>j\<in>set jobs. description j = None \<Longrightarrow>
     save_to_csv jobs =
       (fieldnames # map (\<lambda>j. [title j, company j, location j, experience j, salary j,
                                 apply_url j, source j]) jobs, None)"
  by (simp add: save_to_csv_def write_rows_plain)

lemma save_to_csv_description:
  "description j = Some d \<Longrightarrow> save_to_csv (j # jobs) = ([fieldnames], Some ValueError)"
  by (simp add: save_to_csv_def writerow_description)

lemma parse_timesjobs_description:
  "parse_timesjobs_job_card c = Some j \<Longrightarrow> description j \<noteq> None"
  using timesjobs_defaults(6)[of c j] by (simp add: timesjobs_extract_fields split: option.splits)

lemma sample_timesjobs_description:
  "j \<in> set (get_sample_timesjobs job_title loc) \<Longrightarrow> description j \<noteq> None"
  by (auto simp: get_sample_timesjobs_def Let_def)

lemma search_timesjobs_description:
  "j \<in> set (search_timesjobs response job_title loc) \<Longrightarrow> description j \<noteq> None"
  by (auto simp: search_timesjobs_def Let_def split: fetch.splits if_splits
      dest: sample_timesjobs_description parse_cards_set parse_timesjobs_description)

lemma mix_jobs_Cons: "\<exists>rest. mix_jobs (x # ts) ls = x # rest"
proof -
  obtain n where n: "max (length ls) (length (x # ts)) = Suc n"
    by (cases "max (length ls) (length (x # ts))") auto
  have "[0..<Suc n] = 0 # [1..<Suc n]" by (simp add: upt_rec[of 0])
  then have "mix_jobs (x # ts) ls = fold (mix_step (x # ts) ls) [1..<Suc n] (mix_step (x # ts) ls 0 [])"
    unfolding mix_jobs_def Let_def n by simp
  moreover have "\<exists>acc. mix_step (x # ts) ls 0 [] = x # acc"
    by (simp add: mix_step_def Let_def)
  moreover have "\<exists>rest. fold (mix_step (x # ts) ls) ks (x # acc) = x # rest" for ks acc
    by (induction ks arbitrary: acc) (auto simp: mix_step_def Let_def)
  ultimately show ?thesis by metis
qed

lemma search_jobs_head:
  "\<exists>x rest. search_jobs timesjobs_response linkedin_response job_title loc = x # rest \<and>
     x \<in> set (search_timesjobs timesjobs_response job_title loc)"
proof -
  obtain x xs where tj: "search_timesjobs timesjobs_response job_title loc = x # xs"
    using search_timesjobs_nonempty by (meson list.exhaust)
  have src: "source x = ''TimesJobs''"
    using search_timesjobs_source[of x timesjobs_response job_title loc] tj by simp
  have "\<exists>ys. collect_jobs timesjobs_response linkedin_response job_title loc = x # ys"
    by (simp add: collect_jobs_def Let_def tj src source_timesjobs)
  then obtain ys where all:
    "collect_jobs timesjobs_response linkedin_response job_title loc = x # ys"
    by blast
  obtain zs where uniq: "remove_duplicates (x # ys) = x # zs"
    by (simp add: remove_duplicates_def remove_duplicates_loop_Cons
        del: remove_duplicates_loop.simps)
  obtain ts where ts: "filter (\<lambda>job. py_in ''timesjobs'' (py_lower (source job))) (x # zs) = x # ts"
    by (simp add: src source_timesjobs)
  have "interleave (x # zs) =
      mix_jobs (x # ts) (filter (\<lambda>job. py_in ''linkedin'' (py_lower (source job))) (x # zs))"
    unfolding interleave_def Let_def ts by (rule refl)
  then obtain rest where "interleave (x # zs) = x # rest"
    using mix_jobs_Cons[of x ts] by metis
  then show ?thesis
    by (auto simp: search_jobs_def all uniq tj)
qed

text \<open>
  Claim C9. The export should write the header and then one row for every record. It
  does so for records without a \<open>description\<close> key (\<open>save_to_csv_plain\<close>). A
  record that has the key makes \<open>writerow\<close> raise, since \<open>description\<close> is not a
  field name. Every result of \<open>search_jobs\<close> begins with a TimesJobs record, and
  those all have the key: on every result of the search the export writes the header
  alone and raises.
\<close>

theorem save_to_csv_raises_on_search_jobs:
  "save_to_csv (search_jobs timesjobs_response linkedin_response job_title loc)
     = ([fieldnames], Some ValueError)"
proof -
  obtain x rest where head:
    "search_jobs timesjobs_response linkedin_response job_title loc = x # rest"
    "x \<in> set (search_timesjobs timesjobs_response job_title loc)"
    using search_jobs_head by blast
  then obtain d where "description x = Some d"
    using search_timesjobs_description by blast
  then show ?thesis
    unfolding head(1) by (rule save_to_csv_description)
qed

section \<open>The search endpoint\<close>

text \<open>
  A field that is present and not a string makes \<open>strip\<close> raise inside the
  \<^verbatim>\<open>try\<close> block, before the title is tested: the response is the failure response.
\<close>

lemma search_route_not_text:
  "\<not> field_is_text data ''job_title'' \<or> \<not> field_is_text data ''location'' \<Longrightarrow>
     search_route searcher (Dict data) = (500, FailureBody ''AttributeError'')"
  by (auto simp: search_route_def search_route_try_def get_strip_def field_is_text_def
      split: option.splits jvalue.splits)

lemma search_route_no_dict:
  "search_route searcher (NoJson e) = (500, FailureBody e)"
  "search_route searcher NotDict = (500, FailureBody ''AttributeError'')"
  by (simp_all add: search_route_def search_route_try_def)



end
